theory Spec2Isabelle
  imports Complex_Main
begin

section \<open>Data model (timer.model.ts)\<close>

text \<open>
  \<^verbatim>\<open>enum TimerId { 'default' = 'default', 'confirm' = 'confirm' }\<close>.
  The constructors carry the enum's name as a prefix, because \<open>default\<close> is already a
  constant of HOL.
\<close>

datatype TimerId = TimerId_default | TimerId_confirm

text \<open>
  \<^verbatim>\<open>interface TimerState { id: TimerId; value: number }\<close>, "the value of the timer in
  seconds". The fields are named \<open>idT\<close> and \<open>valueT\<close>: \<open>id\<close> is the identity function
  of HOL and \<open>value\<close> is a command of Isabelle. The number of seconds is an integer (the
  repository configures \<open>56 * 60\<close>); it may be zero or negative.
\<close>

record TimerState =
  idT :: TimerId
  valueT :: int

text \<open>
  The \<open>Duration\<close> object of the date-fns library: every field is optional
  (\<open>None\<close> is an absent field).
\<close>

record Duration =
  years :: "int option"
  months :: "int option"
  weeks :: "int option"
  days :: "int option"
  hours :: "int option"
  minutes :: "int option"
  seconds :: "int option"

text \<open>
  \<^verbatim>\<open>interface TimerStateDisplay { value: number; display: Duration | null; percent?: number }\<close>.
  Every display object of the service is built by spreading a \<open>TimerState\<close>
  (\<^verbatim>\<open>{...state, display, percent}\<close> and \<^verbatim>\<open>{...this.defaultTimerState, display: null}\<close>), so
  it carries the \<open>id\<close> of that state as well: the record extends \<open>TimerState\<close>.
  \<open>display = None\<close> is \<open>null\<close>, \<open>percent = None\<close> is \<open>undefined\<close>.
\<close>

record TimerStateDisplay = TimerState +
  display :: "Duration option"
  percent :: "rat option"

text \<open>
  \<^verbatim>\<open>interface TimerData { state; monitor: ReplaySubject<TimerStateDisplay>;
  ended: ReplaySubject<boolean>; interval?: number | null }\<close>.
  A \<open>ReplaySubject\<close> created without a buffer size keeps every value it was given: a
  subject is the list of the values pushed on it with \<open>next\<close>, oldest first. The field
  \<open>interval\<close> is \<open>None\<close> when it is \<open>undefined\<close> or \<open>null\<close>. The handles that
  \<open>window.setInterval\<close> returns are positive numbers: \<open>Handle n\<close> is the number \<open>n + 1\<close>,
  so the test \<^verbatim>\<open>if (timer.interval)\<close> holds exactly when the field is \<open>Some h\<close>.
\<close>

datatype handle = Handle nat

record TimerData =
  state :: TimerState
  monitor :: "TimerStateDisplay list"
  ended :: "bool list"
  interval :: "handle option"

text \<open>\<^verbatim>\<open>export const defaultTimer: TimerState = { id: TimerId.default, value: 56 * 60 }\<close>\<close>

definition defaultTimer :: TimerState where
  "defaultTimer = \<lparr>idT = TimerId_default, valueT = 56 * 60\<rparr>"

section \<open>The service and its environment (timer.service.ts)\<close>

text \<open>
  The arrow function that \<open>countdown\<close> hands to \<open>window.setInterval\<close> closes over the
  \<open>id\<close>, the \<open>state\<close> and the \<open>start\<close> date of that call.
\<close>

record callback =
  cb_id :: TimerId
  cb_state :: TimerState
  cb_start :: int

text \<open>
  The state that the methods read and write: the private map \<open>timers\<close> of the service,
  and the part of the browser window they reach, namely the intervals that are armed
  (handle and callback, in arming order) and the number of handles that
  \<open>window.setInterval\<close> has given out. Dates are integers, the milliseconds of \<open>Date.getTime()\<close>.
\<close>

record service =
  timers :: "TimerId \<Rightarrow> TimerData option"
  window_intervals :: "(handle \<times> callback) list"
  next_handle :: nat

definition init :: service where
  "init = \<lparr>timers = Map.empty, window_intervals = [], next_handle = 0\<rparr>"

text \<open>
  What a method returns: \<open>of(v)\<close> of rxjs, the stream that emits \<open>v\<close> and completes, or
  \<open>subject.asObservable()\<close> for a subject of the record registered under an id
  (its \<open>monitor\<close> where the stream carries displays, its \<open>ended\<close> where it carries
  booleans).
\<close>

datatype 'a observable = Of 'a | AsObservable TimerId

text \<open>The values a subscriber of \<open>of(v)\<close> receives, and whether the stream completes.\<close>

fun emitted :: "(TimerId \<Rightarrow> 'a list) \<Rightarrow> 'a observable \<Rightarrow> 'a list" where
  "emitted subj (Of v) = [v]"
| "emitted subj (AsObservable i) = subj i"

fun completed :: "'a observable \<Rightarrow> bool" where
  "completed (Of v) = True"
| "completed (AsObservable i) = False"

subsection \<open>Observers of the state\<close>

definition monitor_of :: "service \<Rightarrow> TimerId \<Rightarrow> TimerStateDisplay list" where
  "monitor_of s i = (case timers s i of None \<Rightarrow> [] | Some t \<Rightarrow> monitor t)"

definition ended_of :: "service \<Rightarrow> TimerId \<Rightarrow> bool list" where
  "ended_of s i = (case timers s i of None \<Rightarrow> [] | Some t \<Rightarrow> ended t)"

definition interval_of :: "service \<Rightarrow> TimerId \<Rightarrow> handle option" where
  "interval_of s i = (case timers s i of None \<Rightarrow> None | Some t \<Rightarrow> interval t)"

text \<open>The armed intervals whose callback was created for the id \<open>i\<close>.\<close>

definition polls :: "service \<Rightarrow> TimerId \<Rightarrow> (handle \<times> callback) list" where
  "polls s i = filter (\<lambda>hc. cb_id (snd hc) = i) (window_intervals s)"

text \<open>
  One poll per id: the armed intervals have distinct handles, each of them is the one
  that the record registered under its callback's id holds in \<open>interval\<close>, and each
  handle has been given out already. Then at most one interval is armed for an id.
\<close>

fun handle_index :: "handle \<Rightarrow> nat" where
  "handle_index (Handle k) = k"

definition fresh :: "service \<Rightarrow> handle \<Rightarrow> bool" where
  "fresh s h \<longleftrightarrow> handle_index h < next_handle s"

definition single_poll :: "service \<Rightarrow> bool" where
  "single_poll s \<longleftrightarrow>
     distinct (map fst (window_intervals s)) \<and>
     list_all (\<lambda>hc. interval_of s (cb_id (snd hc)) = Some (fst hc) \<and> fresh s (fst hc))
       (window_intervals s)"

text \<open>The armed intervals that are left when the window clears the handle \<open>ho\<close>, if any.\<close>

definition cleared :: "service \<Rightarrow> handle option \<Rightarrow> (handle \<times> callback) list" where
  "cleared s ho =
     (case ho of None \<Rightarrow> window_intervals s
      | Some h \<Rightarrow> filter (\<lambda>hc. fst hc \<noteq> h) (window_intervals s))"

subsection \<open>Writes through the reference \<open>timer\<close>\<close>

text \<open>
  In \<open>start\<close>, \<open>stop\<close>, \<open>clearInterval\<close>, \<open>update\<close> and \<open>countdown\<close> the local \<open>timer\<close> is
  the object that \<open>this.timers.get(id)\<close> returned, and no statement between that read
  and the writes replaces the map's entry for \<open>id\<close>: a write to a field of \<open>timer\<close> is a
  write to the record stored under \<open>id\<close>.
\<close>

definition monitor_next :: "service \<Rightarrow> TimerId \<Rightarrow> TimerStateDisplay \<Rightarrow> service" where
  "monitor_next s i d =
     (case timers s i of None \<Rightarrow> s
      | Some t \<Rightarrow> s\<lparr>timers := (timers s)(i \<mapsto> t\<lparr>monitor := monitor t @ [d]\<rparr>)\<rparr>)"

definition ended_next :: "service \<Rightarrow> TimerId \<Rightarrow> bool \<Rightarrow> service" where
  "ended_next s i b =
     (case timers s i of None \<Rightarrow> s
      | Some t \<Rightarrow> s\<lparr>timers := (timers s)(i \<mapsto> t\<lparr>ended := ended t @ [b]\<rparr>)\<rparr>)"

definition set_interval_field :: "service \<Rightarrow> TimerId \<Rightarrow> handle option \<Rightarrow> service" where
  "set_interval_field s i h =
     (case timers s i of None \<Rightarrow> s
      | Some t \<Rightarrow> s\<lparr>timers := (timers s)(i \<mapsto> t\<lparr>interval := h\<rparr>)\<rparr>)"

subsection \<open>The window's timers\<close>

definition window_clearInterval :: "service \<Rightarrow> handle \<Rightarrow> service" where
  "window_clearInterval s h =
     s\<lparr>window_intervals := filter (\<lambda>hc. fst hc \<noteq> h) (window_intervals s)\<rparr>"

definition window_setInterval :: "service \<Rightarrow> callback \<Rightarrow> service \<times> handle" where
  "window_setInterval s cb =
     (s\<lparr>window_intervals := window_intervals s @ [(Handle (next_handle s), cb)],
        next_handle := Suc (next_handle s)\<rparr>, Handle (next_handle s))"

subsection \<open>The methods\<close>

definition setTimer :: "service \<Rightarrow> TimerState \<Rightarrow> service" where
  "setTimer s st =
     s\<lparr>timers := (timers s)(idT st \<mapsto>
          \<lparr>state = st, monitor = [], ended = [], interval = None\<rparr>)\<rparr>"

definition getTimer :: "service \<Rightarrow> TimerId \<Rightarrow> TimerData option" where
  "getTimer s i = timers s i"

definition clearInterval :: "service \<Rightarrow> TimerId \<Rightarrow> service" where
  "clearInterval s i =
     (case getTimer s i of None \<Rightarrow> s
      | Some timer \<Rightarrow>
          (case interval timer of None \<Rightarrow> s
           | Some h \<Rightarrow> set_interval_field (window_clearInterval s h) i None))"

text \<open>The object \<^verbatim>\<open>{...this.defaultTimerState, display: null}\<close> that \<open>stop\<close> broadcasts.\<close>

definition idle_display :: TimerStateDisplay where
  "idle_display =
     \<lparr>idT = idT defaultTimer, valueT = valueT defaultTimer, display = None, percent = None\<rparr>"

definition stop :: "service \<Rightarrow> TimerId \<Rightarrow> service \<times> bool observable" where
  "stop s i =
     (case getTimer s i of None \<Rightarrow> (s, Of False)
      | Some timer \<Rightarrow>
          (let s1 = clearInterval s i;
               s2 = monitor_next s1 i idle_display;
               s3 = ended_next s2 i True
           in (s3, AsObservable i)))"

text \<open>
  \<^verbatim>\<open>!!state.display?.hours || !!state.display?.minutes || !!state.display?.seconds\<close>:
  a field is truthy when it is present and not zero; with \<open>display\<close> null every operand
  is \<open>undefined\<close>.
\<close>

definition truthy :: "int option \<Rightarrow> bool" where
  "truthy v = (case v of None \<Rightarrow> False | Some n \<Rightarrow> n \<noteq> 0)"

definition hasValue :: "TimerStateDisplay \<Rightarrow> bool" where
  "hasValue d =
     (case display d of None \<Rightarrow> False
      | Some D \<Rightarrow> truthy (hours D) \<or> truthy (minutes D) \<or> truthy (seconds D))"

text \<open>
  \<open>update\<close>: \<open>ngZone.run\<close> calls its argument at once; the subscription
  \<^verbatim>\<open>this.stop(id).pipe(take(1)).subscribe()\<close> has no observer, so only the effects of
  \<open>stop\<close> remain.
\<close>

definition update :: "service \<Rightarrow> TimerId \<Rightarrow> TimerStateDisplay \<Rightarrow> service" where
  "update s i d =
     (case getTimer s i of None \<Rightarrow> s
      | Some timer \<Rightarrow>
          if \<not> hasValue d then fst (stop (clearInterval s i) i)
          else monitor_next s i d)"

text \<open>
  \<^verbatim>\<open>add(start, {seconds: v})\<close> of date-fns is the date \<open>v * 1000\<close> milliseconds after
  \<open>start\<close>.
\<close>

definition add_seconds :: "int \<Rightarrow> int \<Rightarrow> int" where
  "add_seconds start v = start + v * 1000"

record duration_result =
  display_r :: Duration
  remaining :: rat

text \<open>
  \<open>getDuration\<close>. The library function \<open>intervalToDuration\<close> is the parameter \<open>itd\<close>,
  applied to the start and the end of the interval.
\<close>

definition getDuration ::
  "(int \<Rightarrow> int \<Rightarrow> Duration) \<Rightarrow> int \<Rightarrow> int \<Rightarrow> TimerState \<Rightarrow> duration_result" where
  "getDuration itd start now st =
     (let end = add_seconds start (valueT st)
      in \<lparr>display_r = itd now end, remaining = of_int (end - now) / 1000\<rparr>)"

text \<open>
  \<open>calculate\<close>, in two parts: the object \<^verbatim>\<open>{...state, display, percent}\<close> it builds, and
  the call of \<open>update\<close> with it. \<open>now\<close> is the \<^verbatim>\<open>new Date()\<close> of this call.
\<close>

definition calculate_display ::
  "(int \<Rightarrow> int \<Rightarrow> Duration) \<Rightarrow> TimerState \<Rightarrow> int \<Rightarrow> int \<Rightarrow> TimerStateDisplay" where
  "calculate_display itd st start now =
     (let r = getDuration itd start now st;
          p = (if valueT st \<noteq> 0 then Some ((remaining r * 100) / of_int (valueT st))
               else None)
      in \<lparr>idT = idT st, valueT = valueT st, display = Some (display_r r), percent = p\<rparr>)"

definition calculate ::
  "(int \<Rightarrow> int \<Rightarrow> Duration) \<Rightarrow> service \<Rightarrow> TimerId \<Rightarrow> TimerState \<Rightarrow> int \<Rightarrow> int \<Rightarrow> service" where
  "calculate itd s i st start now = update s i (calculate_display itd st start now)"

text \<open>
  \<open>countdown\<close>: \<open>start\<close> is its \<^verbatim>\<open>new Date()\<close>, \<open>now\<close> the one of the immediate
  \<open>calculate\<close>. The interval is armed after that call, whatever it did.
\<close>

definition countdown ::
  "(int \<Rightarrow> int \<Rightarrow> Duration) \<Rightarrow> service \<Rightarrow> TimerId \<Rightarrow> TimerState \<Rightarrow> int \<Rightarrow> int \<Rightarrow> service" where
  "countdown itd s i st start now =
     (case getTimer s i of None \<Rightarrow> s
      | Some timer \<Rightarrow>
          (let s1 = clearInterval s i;
               s2 = calculate itd s1 i st start now;
               (s3, h) = window_setInterval s2 \<lparr>cb_id = i, cb_state = st, cb_start = start\<rparr>
           in set_interval_field s3 i (Some h)))"

definition start ::
  "(int \<Rightarrow> int \<Rightarrow> Duration) \<Rightarrow> service \<Rightarrow> TimerId \<Rightarrow> int \<Rightarrow> int
     \<Rightarrow> service \<times> TimerStateDisplay option observable" where
  "start itd s i t0 t1 =
     (case getTimer s i of None \<Rightarrow> (s, Of None)
      | Some timer \<Rightarrow>
          (let s1 = ended_next s i False;
               s2 = countdown itd s1 i (state timer) t0 t1
           in (s2, AsObservable i)))"

definition reset ::
  "(int \<Rightarrow> int \<Rightarrow> Duration) \<Rightarrow> service \<Rightarrow> TimerId \<Rightarrow> int \<Rightarrow> int
     \<Rightarrow> service \<times> TimerStateDisplay option observable" where
  "reset itd s i t0 t1 = start itd s i t0 t1"

text \<open>
  One firing of the armed interval \<open>h\<close> at the date \<open>now\<close>: the window calls the callback,
  which calls \<open>calculate\<close> with the values it closed over. A handle that is not armed
  does not fire.
\<close>

definition tick :: "(int \<Rightarrow> int \<Rightarrow> Duration) \<Rightarrow> service \<Rightarrow> handle \<Rightarrow> int \<Rightarrow> service" where
  "tick itd s h now =
     (case map_of (window_intervals s) h of None \<Rightarrow> s
      | Some cb \<Rightarrow> calculate itd s (cb_id cb) (cb_state cb) (cb_start cb) now)"

subsection \<open>The root component (app.component.ts)\<close>

text \<open>
  \<open>ngOnInit\<close> registers \<open>defaultTimer\<close> and starts it; \<open>ngOnDestroy\<close> stops it. The
  streams they get back are dropped.
\<close>

definition ngOnInit :: "(int \<Rightarrow> int \<Rightarrow> Duration) \<Rightarrow> service \<Rightarrow> int \<Rightarrow> int \<Rightarrow> service" where
  "ngOnInit itd s t0 t1 = fst (start itd (setTimer s defaultTimer) TimerId_default t0 t1)"

definition ngOnDestroy :: "service \<Rightarrow> service" where
  "ngOnDestroy s = fst (stop s TimerId_default)"

subsection \<open>An instance of the library's decomposition\<close>

text \<open>
  Modelled from the spec: \<open>intervalToDuration\<close> belongs to the date-fns library, whose
  code is not in the repository. The specification describes its result as the
  structured decomposition of the interval into hours, minutes and seconds, and larger
  units if present. This instance decomposes the whole seconds of the interval
  (rounded towards zero) into days, hours, minutes and seconds and leaves a unit
  absent when it is zero. It is used for concrete runs only; the theorems below hold
  for every function \<open>itd\<close>.
\<close>

definition present :: "int \<Rightarrow> int option" where
  "present n = (if n = 0 then None else Some n)"

definition intervalToDuration :: "int \<Rightarrow> int \<Rightarrow> Duration" where
  "intervalToDuration from to =
     (let ms = to - from;
          sg = sgn ms;
          secs = \<bar>ms\<bar> div 1000
      in \<lparr>years = None, months = None, weeks = None,
          days = present (sg * (secs div 86400)),
          hours = present (sg * ((secs mod 86400) div 3600)),
          minutes = present (sg * ((secs mod 3600) div 60)),
          seconds = present (sg * (secs mod 60))\<rparr>)"

section \<open>Effects of the methods on a registered timer\<close>

lemmas model_defs =
  ngOnInit_def ngOnDestroy_def init_def defaultTimer_def idle_display_def
  monitor_of_def ended_of_def interval_of_def polls_def cleared_def
  monitor_next_def ended_next_def set_interval_field_def
  window_clearInterval_def window_setInterval_def
  setTimer_def getTimer_def clearInterval_def stop_def truthy_def hasValue_def update_def
  add_seconds_def getDuration_def calculate_display_def calculate_def countdown_def
  start_def reset_def tick_def present_def intervalToDuration_def Let_def

lemma hasValue_iff:
  "hasValue d \<longleftrightarrow>
     (\<exists>D. display d = Some D \<and>
        \<not> (hours D \<in> {None, Some 0} \<and> minutes D \<in> {None, Some 0}
           \<and> seconds D \<in> {None, Some 0}))"
  by (auto simp: hasValue_def truthy_def split: option.splits)

lemma display_calculate_display:
  "display (calculate_display itd st t0 now) = Some (itd now (add_seconds t0 (valueT st)))"
  by (simp add: calculate_display_def getDuration_def Let_def)

lemma map_of_cleared: "map_of (filter (\<lambda>hc. fst hc \<noteq> h) W) h = None"
  by (induction W) auto

lemma cleared_timers_update: "cleared (s\<lparr>timers := f\<rparr>) ho = cleared s ho"
  by (simp add: cleared_def split: option.splits)

lemma clearInterval_registered:
  assumes "timers s i = Some T"
  shows "clearInterval s i =
           s\<lparr>timers := (timers s)(i \<mapsto> T\<lparr>interval := None\<rparr>),
             window_intervals := cleared s (interval T)\<rparr>"
proof (cases "interval T")
  case None
  then have "T\<lparr>interval := None\<rparr> = T" by (cases T) simp
  with None assms show ?thesis
    by (simp add: clearInterval_def getTimer_def cleared_def fun_upd_idem)
next
  case (Some h)
  with assms show ?thesis
    by (simp add: clearInterval_def getTimer_def cleared_def set_interval_field_def
        window_clearInterval_def)
qed

lemma stop_registered:
  assumes "timers s i = Some T"
  shows "stop s i =
           (s\<lparr>timers := (timers s)(i \<mapsto>
                 T\<lparr>interval := None, monitor := monitor T @ [idle_display],
                   ended := ended T @ [True]\<rparr>),
               window_intervals := cleared s (interval T)\<rparr>, AsObservable i)"
  using assms
  by (simp add: stop_def getTimer_def clearInterval_registered monitor_next_def ended_next_def)

lemma update_registered:
  assumes "timers s i = Some T"
  shows "update s i d =
     (if hasValue d then s\<lparr>timers := (timers s)(i \<mapsto> T\<lparr>monitor := monitor T @ [d]\<rparr>)\<rparr>
      else s\<lparr>timers := (timers s)(i \<mapsto>
                 T\<lparr>interval := None, monitor := monitor T @ [idle_display],
                   ended := ended T @ [True]\<rparr>),
               window_intervals := cleared s (interval T)\<rparr>)"
proof -
  have c: "timers (clearInterval s i) i = Some (T\<lparr>interval := None\<rparr>)"
    using assms by (simp add: clearInterval_registered)
  show ?thesis
    using assms
    apply (simp add: update_def getTimer_def monitor_next_def stop_registered [OF c])
    apply (simp add: clearInterval_registered cleared_def split: option.splits)
    done
qed

lemma update_expired:
  assumes "timers s i = Some T" and "\<not> hasValue d"
  shows "update s i d = fst (stop (clearInterval s i) i)"
  using assms by (simp add: update_def getTimer_def)

lemma countdown_registered:
  assumes "timers s i = Some T"
  shows "countdown itd s i st t0 t1 =
     s\<lparr>timers := (timers s)(i \<mapsto>
          T\<lparr>interval := Some (Handle (next_handle s)),
            monitor := monitor T @
              [if hasValue (calculate_display itd st t0 t1)
               then calculate_display itd st t0 t1 else idle_display],
            ended := ended T @
              (if hasValue (calculate_display itd st t0 t1) then [] else [True])\<rparr>),
        window_intervals := cleared s (interval T) @
          [(Handle (next_handle s), \<lparr>cb_id = i, cb_state = st, cb_start = t0\<rparr>)],
        next_handle := Suc (next_handle s)\<rparr>"
proof -
  have c: "timers (clearInterval s i) i = Some (T\<lparr>interval := None\<rparr>)"
    using assms by (simp add: clearInterval_registered)
  show ?thesis
    using assms
    apply (simp add: countdown_def getTimer_def calculate_def update_registered [OF c]
        window_setInterval_def set_interval_field_def)
    apply (simp add: clearInterval_registered cleared_timers_update)
    apply (cases s; cases T; simp add: cleared_def)
    done
qed

lemma start_registered:
  assumes "timers s i = Some T"
  shows "start itd s i t0 t1 =
     (s\<lparr>timers := (timers s)(i \<mapsto>
          T\<lparr>interval := Some (Handle (next_handle s)),
            monitor := monitor T @
              [if hasValue (calculate_display itd (state T) t0 t1)
               then calculate_display itd (state T) t0 t1 else idle_display],
            ended := ended T @ False #
              (if hasValue (calculate_display itd (state T) t0 t1) then [] else [True])\<rparr>),
        window_intervals := cleared s (interval T) @
          [(Handle (next_handle s), \<lparr>cb_id = i, cb_state = state T, cb_start = t0\<rparr>)],
        next_handle := Suc (next_handle s)\<rparr>, AsObservable i)"
proof -
  have e: "timers (ended_next s i False) i = Some (T\<lparr>ended := ended T @ [False]\<rparr>)"
    using assms by (simp add: ended_next_def)
  show ?thesis
    using assms
    apply (simp add: start_def getTimer_def countdown_registered [OF e])
    apply (simp add: ended_next_def cleared_timers_update)
    done
qed

text \<open>
  The state after \<open>ngOnInit\<close> on a fresh service, with both clock readings at 0: the
  default timer runs, its first display is on the stream and its poll has the first handle.
\<close>

lemma running_state:
  "ngOnInit intervalToDuration init 0 0 =
     \<lparr>timers = [TimerId_default \<mapsto>
        \<lparr>state = \<lparr>idT = TimerId_default, valueT = 3360\<rparr>,
         monitor = [\<lparr>idT = TimerId_default, valueT = 3360,
                     display = Some \<lparr>years = None, months = None, weeks = None, days = None,
                                     hours = None, minutes = Some 56, seconds = None\<rparr>,
                     percent = Some 100\<rparr>],
         ended = [False], interval = Some (Handle 0)\<rparr>],
      window_intervals = [(Handle 0, \<lparr>cb_id = TimerId_default,
                                cb_state = \<lparr>idT = TimerId_default, valueT = 3360\<rparr>,
                                cb_start = 0\<rparr>)],
      next_handle = 1\<rparr>"
  by (simp add: model_defs)

section \<open>Unknown ids\<close>

text \<open>
  C7. For an id with no registered record, \<open>stop\<close> returns the stream \<open>of(false)\<close>, which
  emits the single value \<open>false\<close> and completes, and the state of the service, hence its
  map from ids to records, is the one before the call.
\<close>

theorem stop_unknown_id:
  assumes "getTimer s i = None"
  shows "stop s i = (s, Of False)
     \<and> emitted (ended_of (fst (stop s i))) (snd (stop s i)) = [False]
     \<and> completed (snd (stop s i))
     \<and> timers (fst (stop s i)) = timers s"
  using assms by (simp add: stop_def)

theorem stop_unknown_id_witness:
  "getTimer init TimerId_confirm = None
   \<and> stop init TimerId_confirm = (init, Of False)
   \<and> emitted (ended_of (fst (stop init TimerId_confirm))) (snd (stop init TimerId_confirm)) = [False]"
proof -
  have h: "getTimer init TimerId_confirm = None"
    by (simp add: getTimer_def init_def)
  show ?thesis
    using h stop_unknown_id [OF h] by simp
qed

text \<open>
  C6. For an id with no registered record, \<open>start\<close> raises nothing and returns the
  stream \<open>of(null)\<close>: it emits the single value \<open>null\<close>, so no display value, and
  completes. The state of the service is the one before the call.
\<close>

theorem start_unknown_id:
  assumes "getTimer s i = None"
  shows "start itd s i t0 t1 = (s, Of None)
     \<and> emitted (\<lambda>j. map Some (monitor_of (fst (start itd s i t0 t1)) j))
          (snd (start itd s i t0 t1)) = [None]
     \<and> filter (\<lambda>v. v \<noteq> None)
          (emitted (\<lambda>j. map Some (monitor_of (fst (start itd s i t0 t1)) j))
             (snd (start itd s i t0 t1))) = []
     \<and> completed (snd (start itd s i t0 t1))"
  using assms by (simp add: start_def)

theorem start_unknown_id_witness:
  "getTimer init TimerId_confirm = None
   \<and> start intervalToDuration init TimerId_confirm 0 0 = (init, Of None)
   \<and> completed (snd (start intervalToDuration init TimerId_confirm 0 0))"
proof -
  have h: "getTimer init TimerId_confirm = None"
    by (simp add: getTimer_def init_def)
  show ?thesis
    using h start_unknown_id [OF h, of intervalToDuration 0 0] by simp
qed

section \<open>The duration helper and the percentage\<close>

text \<open>
  C9. \<open>getDuration\<close> is a function of the start date, the current date and the
  configured seconds alone, and it has no error case. Its \<open>remaining\<close> is the distance
  from the current date to the end date (the start date plus the configured seconds),
  in milliseconds, divided by 1000; its breakdown is the decomposition, by the library,
  of the interval from the current date to that end date.
\<close>

theorem getDuration_formula:
  "getDuration itd t0 now st =
     \<lparr>display_r = itd now (t0 + valueT st * 1000),
      remaining = (of_int t0 + of_int (valueT st) * 1000 - of_int now) / 1000\<rparr>"
  by (simp add: getDuration_def add_seconds_def Let_def)

theorem getDuration_formula_witness:
  "remaining (getDuration intervalToDuration 0 300 defaultTimer) = 33597 / 10
   \<and> remaining (getDuration intervalToDuration 0 3361500 defaultTimer) = - 3 / 2
   \<and> display_r (getDuration intervalToDuration 0 300 defaultTimer) =
       \<lparr>years = None, months = None, weeks = None, days = None,
        hours = None, minutes = Some 55, seconds = Some 59\<rparr>"
  using getDuration_formula [of intervalToDuration 0 300 defaultTimer]
    getDuration_formula [of intervalToDuration 0 3361500 defaultTimer]
  by (simp add: defaultTimer_def intervalToDuration_def present_def Let_def)

text \<open>
  C8. The percentage of a computed display is \<open>undefined\<close> when the configured seconds
  are zero, and no division takes place; otherwise it is the remaining seconds times
  100, divided by the configured seconds. This display is the one \<open>calculate\<close> hands to
  \<open>update\<close>.
\<close>

theorem percent_guarded:
  "percent (calculate_display itd st t0 now) =
     (if valueT st = 0 then None
      else Some (remaining (getDuration itd t0 now st) * 100 / of_int (valueT st)))
   \<and> calculate itd s i st t0 now = update s i (calculate_display itd st t0 now)"
  by (simp add: calculate_display_def calculate_def Let_def)

theorem percent_guarded_witness:
  "percent (calculate_display intervalToDuration \<lparr>idT = TimerId_confirm, valueT = 0\<rparr> 0 300)
     = None
   \<and> percent (calculate_display intervalToDuration defaultTimer 0 840000) = Some 75"
  using percent_guarded [of intervalToDuration "\<lparr>idT = TimerId_confirm, valueT = 0\<rparr>" 0 300]
    percent_guarded [of intervalToDuration defaultTimer 0 840000]
  by (simp add: defaultTimer_def getDuration_def add_seconds_def Let_def)

text \<open>
  The percentage falls from 100 as time passes: it is 100 minus the share of the
  configured seconds that has elapsed.
\<close>

lemma percent_is_remaining_share:
  "valueT st \<noteq> 0 \<Longrightarrow>
   percent (calculate_display itd st t0 now) =
     Some (100 - (of_int (now - t0) / 1000) / of_int (valueT st) * 100)"
  by (simp add: calculate_display_def getDuration_def add_seconds_def Let_def field_simps)

text \<open>
  C1. The claim is that the percentage of a broadcast display is the elapsed share,
  about 0 in the first display after \<open>start\<close>. In the code the first display of the
  default timer, with both clock readings at the same instant \<open>t\<close>, has the
  percentage 100: the code computes the remaining share.
\<close>

theorem first_display_percent:
  "monitor_of (ngOnInit intervalToDuration init t t) TimerId_default =
     [\<lparr>idT = TimerId_default, valueT = 3360,
       display = Some \<lparr>years = None, months = None, weeks = None, days = None,
                       hours = None, minutes = Some 56, seconds = None\<rparr>,
       percent = Some 100\<rparr>]"
  by (simp add: model_defs)

section \<open>Stopping\<close>

text \<open>
  The effects of \<open>stop\<close> on a registered timer: the handle that the record holds
  leaves the window, the idle display and \<open>true\<close> are pushed, in this order.
\<close>

lemma stop_registered_effects:
  assumes "timers s i = Some T"
  shows "fst (stop s i) = ended_next (monitor_next (clearInterval s i) i idle_display) i True
     \<and> idle_display =
         \<lparr>idT = TimerId_default, valueT = 3360, display = None, percent = None\<rparr>
     \<and> monitor_of (fst (stop s i)) i = monitor T @ [idle_display]
     \<and> ended_of (fst (stop s i)) i = ended T @ [True]
     \<and> interval_of (fst (stop s i)) i = None
     \<and> window_intervals (fst (stop s i)) = cleared s (interval T)
     \<and> snd (stop s i) = AsObservable i"
proof -
  have a: "fst (stop s i) = ended_next (monitor_next (clearInterval s i) i idle_display) i True"
    using assms by (simp add: stop_def getTimer_def)
  have b: "idle_display =
      \<lparr>idT = TimerId_default, valueT = 3360, display = None, percent = None\<rparr>"
    by (simp add: idle_display_def defaultTimer_def)
  have c: "monitor_of (fst (stop s i)) i = monitor T @ [idle_display]"
    by (simp add: stop_registered [OF assms] monitor_of_def)
  have d: "ended_of (fst (stop s i)) i = ended T @ [True]"
    by (simp add: stop_registered [OF assms] ended_of_def)
  have e: "interval_of (fst (stop s i)) i = None"
    by (simp add: stop_registered [OF assms] interval_of_def)
  have f: "window_intervals (fst (stop s i)) = cleared s (interval T)"
    by (simp add: stop_registered [OF assms])
  have g: "snd (stop s i) = AsObservable i"
    by (simp add: stop_registered [OF assms])
  from a b c d e f g show ?thesis by blast
qed

text \<open>
  C3. The claim is that the idle display which \<open>stop\<close> pushes has a \<open>null\<close> breakdown
  and otherwise the timer's own configured values. In the code \<open>stop\<close> spreads the
  constant \<open>defaultTimerState\<close>, where \<open>calculate\<close> spreads the state of the timer. For a
  timer registered with 10 seconds under the id \<open>confirm\<close>, the idle display carries the
  id \<open>default\<close> and 3360 seconds; when the timer was started first, its stream holds a
  display with the id \<open>confirm\<close> and 10 seconds, then the idle display with the id
  \<open>default\<close> and 3360 seconds.
\<close>

theorem stop_idle_display_not_own_config:
  "map_option state (timers (setTimer init \<lparr>idT = TimerId_confirm, valueT = 10\<rparr>)
      TimerId_confirm) = Some \<lparr>idT = TimerId_confirm, valueT = 10\<rparr>
   \<and> monitor_of (fst (stop (setTimer init \<lparr>idT = TimerId_confirm, valueT = 10\<rparr>)
        TimerId_confirm)) TimerId_confirm =
       [\<lparr>idT = TimerId_default, valueT = 3360, display = None, percent = None\<rparr>]
   \<and> map valueT (monitor_of (fst (stop (setTimer init \<lparr>idT = TimerId_confirm, valueT = 10\<rparr>)
        TimerId_confirm)) TimerId_confirm) \<noteq> [10]
   \<and> monitor_of (fst (stop (fst (start intervalToDuration
        (setTimer init \<lparr>idT = TimerId_confirm, valueT = 10\<rparr>) TimerId_confirm 0 0))
        TimerId_confirm)) TimerId_confirm =
       [\<lparr>idT = TimerId_confirm, valueT = 10,
         display = Some \<lparr>years = None, months = None, weeks = None, days = None,
                         hours = None, minutes = None, seconds = Some 10\<rparr>,
         percent = Some 100\<rparr>,
        \<lparr>idT = TimerId_default, valueT = 3360, display = None, percent = None\<rparr>]
   \<and> ended_of (fst (stop (fst (start intervalToDuration
        (setTimer init \<lparr>idT = TimerId_confirm, valueT = 10\<rparr>) TimerId_confirm 0 0))
        TimerId_confirm)) TimerId_confirm = [False, True]"
  by (simp add: model_defs)

section \<open>Ticks\<close>

text \<open>
  C5. Let the poll \<open>h\<close> of a running timer fire. When the hours, the minutes and the
  seconds of the computed breakdown are all absent or zero, the tick cancels the poll
  and runs \<open>stop\<close>: the computed display is not pushed, the only values pushed are the
  idle display and \<open>true\<close> of \<open>stop\<close>, and the handle is no longer armed. When one of the
  three units is not zero, the tick pushes the computed display on the display stream
  and changes nothing else.
\<close>

theorem tick_expiry_or_broadcast:
  assumes "map_of (window_intervals s) h = Some cb"
    and "timers s (cb_id cb) = Some T"
    and "interval T = Some h"
    and "itd now (add_seconds (cb_start cb) (valueT (cb_state cb))) = D"
  shows "if hours D \<in> {None, Some 0} \<and> minutes D \<in> {None, Some 0}
            \<and> seconds D \<in> {None, Some 0}
     then tick itd s h now = fst (stop (clearInterval s (cb_id cb)) (cb_id cb))
        \<and> monitor_of (tick itd s h now) (cb_id cb) = monitor T @ [idle_display]
        \<and> ended_of (tick itd s h now) (cb_id cb) = ended T @ [True]
        \<and> interval_of (tick itd s h now) (cb_id cb) = None
        \<and> map_of (window_intervals (tick itd s h now)) h = None
     else tick itd s h now =
            monitor_next s (cb_id cb) (calculate_display itd (cb_state cb) (cb_start cb) now)
        \<and> monitor_of (tick itd s h now) (cb_id cb) =
            monitor T @ [calculate_display itd (cb_state cb) (cb_start cb) now]
        \<and> ended_of (tick itd s h now) (cb_id cb) = ended T
        \<and> interval_of (tick itd s h now) (cb_id cb) = Some h
        \<and> window_intervals (tick itd s h now) = window_intervals s"
proof -
  let ?i = "cb_id cb"
  let ?d = "calculate_display itd (cb_state cb) (cb_start cb) now"
  have t: "tick itd s h now = update s ?i ?d"
    using assms(1) by (simp add: tick_def calculate_def)
  have hv: "hasValue ?d \<longleftrightarrow>
      \<not> (hours D \<in> {None, Some 0} \<and> minutes D \<in> {None, Some 0} \<and> seconds D \<in> {None, Some 0})"
    using assms(4) by (simp add: hasValue_iff display_calculate_display)
  show ?thesis
  proof (cases "hasValue ?d")
    case True
    have u: "update s ?i ?d =
        s\<lparr>timers := (timers s)(?i \<mapsto> T\<lparr>monitor := monitor T @ [?d]\<rparr>)\<rparr>"
      using True by (simp add: update_registered [OF assms(2)])
    have m: "update s ?i ?d = monitor_next s ?i ?d"
      using True assms(2) by (simp add: update_def getTimer_def)
    have 1: "monitor_of (update s ?i ?d) ?i = monitor T @ [?d]"
      by (simp add: u monitor_of_def)
    have 2: "ended_of (update s ?i ?d) ?i = ended T"
      by (simp add: u ended_of_def)
    have 3: "interval_of (update s ?i ?d) ?i = Some h"
      using assms(3) by (simp add: u interval_of_def)
    have 4: "window_intervals (update s ?i ?d) = window_intervals s"
      by (simp add: u)
    from True hv m 1 2 3 4 show ?thesis
      unfolding t by presburger
  next
    case False
    have u: "update s ?i ?d =
        s\<lparr>timers := (timers s)(?i \<mapsto>
             T\<lparr>interval := None, monitor := monitor T @ [idle_display],
               ended := ended T @ [True]\<rparr>),
          window_intervals := cleared s (interval T)\<rparr>"
      using False by (simp add: update_registered [OF assms(2)])
    have m: "update s ?i ?d = fst (stop (clearInterval s ?i) ?i)"
      by (rule update_expired [OF assms(2) False])
    have 1: "monitor_of (update s ?i ?d) ?i = monitor T @ [idle_display]"
      by (simp add: u monitor_of_def)
    have 2: "ended_of (update s ?i ?d) ?i = ended T @ [True]"
      by (simp add: u ended_of_def)
    have 3: "interval_of (update s ?i ?d) ?i = None"
      by (simp add: u interval_of_def)
    have 4: "map_of (window_intervals (update s ?i ?d)) h = None"
      using assms(3) by (simp add: u cleared_def map_of_cleared)
    from False hv m 1 2 3 4 show ?thesis
      unfolding t by presburger
  qed
qed

theorem tick_expiry_or_broadcast_witness:
  "monitor_of (tick intervalToDuration (ngOnInit intervalToDuration init 0 0) (Handle 0) 300)
      TimerId_default =
     monitor_of (ngOnInit intervalToDuration init 0 0) TimerId_default @
       [\<lparr>idT = TimerId_default, valueT = 3360,
         display = Some \<lparr>years = None, months = None, weeks = None, days = None,
                         hours = None, minutes = Some 55, seconds = Some 59\<rparr>,
         percent = Some (11199 / 112)\<rparr>]
   \<and> monitor_of (tick intervalToDuration (ngOnInit intervalToDuration init 0 0) (Handle 0) 3360000)
      TimerId_default =
     monitor_of (ngOnInit intervalToDuration init 0 0) TimerId_default @ [idle_display]
   \<and> ended_of (tick intervalToDuration (ngOnInit intervalToDuration init 0 0) (Handle 0) 3360000)
      TimerId_default = [False, True]
   \<and> window_intervals (tick intervalToDuration (ngOnInit intervalToDuration init 0 0) (Handle 0) 300)
     = window_intervals (ngOnInit intervalToDuration init 0 0)
   \<and> map_of (window_intervals
        (tick intervalToDuration (ngOnInit intervalToDuration init 0 0) (Handle 0) 3360000)) (Handle 0) = None"
proof -
  let ?R = "ngOnInit intervalToDuration init 0 0"
  let ?cb = "\<lparr>cb_id = TimerId_default,
              cb_state = \<lparr>idT = TimerId_default, valueT = 3360\<rparr>, cb_start = 0\<rparr>"
  let ?T = "\<lparr>state = \<lparr>idT = TimerId_default, valueT = 3360\<rparr>,
         monitor = [\<lparr>idT = TimerId_default, valueT = 3360,
                     display = Some \<lparr>years = None, months = None, weeks = None, days = None,
                                     hours = None, minutes = Some 56, seconds = None\<rparr>,
                     percent = Some 100\<rparr>],
         ended = [False], interval = Some (Handle 0)\<rparr>"
  have h1: "map_of (window_intervals ?R) (Handle 0) = Some ?cb"
    by (simp add: running_state)
  have h2: "timers ?R (cb_id ?cb) = Some ?T"
    by (simp add: running_state)
  have h3: "interval ?T = Some (Handle 0)"
    by simp
  have a: "intervalToDuration 300 (add_seconds (cb_start ?cb) (valueT (cb_state ?cb))) =
      \<lparr>years = None, months = None, weeks = None, days = None,
       hours = None, minutes = Some 55, seconds = Some 59\<rparr>"
    by (simp add: intervalToDuration_def add_seconds_def present_def Let_def)
  have b: "intervalToDuration 3360000 (add_seconds (cb_start ?cb) (valueT (cb_state ?cb))) =
      \<lparr>years = None, months = None, weeks = None, days = None,
       hours = None, minutes = None, seconds = None\<rparr>"
    by (simp add: intervalToDuration_def add_seconds_def present_def Let_def)
  have c: "calculate_display intervalToDuration \<lparr>idT = TimerId_default, valueT = 3360\<rparr> 0 300 =
      \<lparr>idT = TimerId_default, valueT = 3360,
         display = Some \<lparr>years = None, months = None, weeks = None, days = None,
                         hours = None, minutes = Some 55, seconds = Some 59\<rparr>,
         percent = Some (11199 / 112)\<rparr>"
    by (simp add: model_defs)
  have na: "\<not> (hours \<lparr>years = None, months = None, weeks = None, days = None,
       hours = None, minutes = Some 55, seconds = Some 59\<rparr> \<in> {None, Some 0}
     \<and> minutes \<lparr>years = None, months = None, weeks = None, days = None,
       hours = None, minutes = Some 55, seconds = Some 59\<rparr> \<in> {None, Some 0}
     \<and> seconds \<lparr>years = None, months = None, weeks = None, days = None,
       hours = None, minutes = Some 55, seconds = Some 59\<rparr> \<in> {None, Some 0})"
    by simp
  have nb: "hours \<lparr>years = None, months = None, weeks = None, days = None,
       hours = None, minutes = None, seconds = None\<rparr> \<in> {None, Some 0}
     \<and> minutes \<lparr>years = None, months = None, weeks = None, days = None,
       hours = None, minutes = None, seconds = None\<rparr> \<in> {None, Some 0}
     \<and> seconds \<lparr>years = None, months = None, weeks = None, days = None,
       hours = None, minutes = None, seconds = None\<rparr> \<in> {None, Some 0}"
    by simp
  note wa = tick_expiry_or_broadcast [where itd = intervalToDuration and now = 300,
      OF h1 h2 h3 a, unfolded if_not_P [OF na]]
  note wb = tick_expiry_or_broadcast [where itd = intervalToDuration and now = 3360000,
      OF h1 h2 h3 b, unfolded if_P [OF nb]]
  have m: "monitor_of ?R TimerId_default = monitor ?T"
    by (simp add: running_state monitor_of_def)
  have 1: "monitor_of (tick intervalToDuration ?R (Handle 0) 300) TimerId_default =
      monitor_of ?R TimerId_default @
       [\<lparr>idT = TimerId_default, valueT = 3360,
         display = Some \<lparr>years = None, months = None, weeks = None, days = None,
                         hours = None, minutes = Some 55, seconds = Some 59\<rparr>,
         percent = Some (11199 / 112)\<rparr>]"
    using wa [THEN conjunct2, THEN conjunct1] by (simp add: c m)
  have 2: "monitor_of (tick intervalToDuration ?R (Handle 0) 3360000) TimerId_default =
      monitor_of ?R TimerId_default @ [idle_display]"
    using wb [THEN conjunct2, THEN conjunct1] by (simp add: m)
  have 3: "ended_of (tick intervalToDuration ?R (Handle 0) 3360000) TimerId_default = [False, True]"
    using wb [THEN conjunct2, THEN conjunct2, THEN conjunct1] by simp
  have 4: "window_intervals (tick intervalToDuration ?R (Handle 0) 300) = window_intervals ?R"
    using wa [THEN conjunct2, THEN conjunct2, THEN conjunct2, THEN conjunct2] by simp
  have 5: "map_of (window_intervals (tick intervalToDuration ?R (Handle 0) 3360000)) (Handle 0) = None"
    using wb [THEN conjunct2, THEN conjunct2, THEN conjunct2, THEN conjunct2] by simp
  from 1 2 3 4 5 show ?thesis by blast
qed




text \<open>
  A timer of exactly one day, started on a fresh service: the immediate \<open>calculate\<close>
  runs \<open>stop\<close>, then \<open>countdown\<close> arms the poll all the same, and the tick 300 ms later
  pushes 23 hours, 59 minutes and 59 seconds.
\<close>

lemma start_whole_day_example:
  "monitor_of (fst (start intervalToDuration
      (setTimer init \<lparr>idT = TimerId_default, valueT = 86400\<rparr>) TimerId_default 0 0))
      TimerId_default = [idle_display]
   \<and> ended_of (fst (start intervalToDuration
      (setTimer init \<lparr>idT = TimerId_default, valueT = 86400\<rparr>) TimerId_default 0 0))
      TimerId_default = [False, True]
   \<and> interval_of (fst (start intervalToDuration
      (setTimer init \<lparr>idT = TimerId_default, valueT = 86400\<rparr>) TimerId_default 0 0))
      TimerId_default = Some (Handle 0)
   \<and> map display (monitor_of (tick intervalToDuration (fst (start intervalToDuration
      (setTimer init \<lparr>idT = TimerId_default, valueT = 86400\<rparr>) TimerId_default 0 0)) (Handle 0) 300)
      TimerId_default) =
     [None, Some \<lparr>years = None, months = None, weeks = None, days = None,
                  hours = Some 23, minutes = Some 59, seconds = Some 59\<rparr>]"
  by (simp add: model_defs)

section \<open>Reset\<close>

text \<open>
  C2, as the code has it. \<open>reset\<close> is \<open>start\<close> and nothing more: it does not run \<open>stop\<close>
  first. For a registered timer, \<open>reset\<close> and \<open>stop\<close> followed by \<open>start\<close> cancel the
  same poll and arm the same new one, and push the same values on both streams, except
  that \<open>reset\<close> leaves out the idle display and the \<open>true\<close> that \<open>stop\<close> pushes.
\<close>

theorem reset_omits_stop:
  assumes "timers s i = Some T"
  shows "reset itd s i t0 t1 = start itd s i t0 t1
     \<and> monitor_of (fst (reset itd s i t0 t1)) i =
         monitor T @
           [if hasValue (calculate_display itd (state T) t0 t1)
            then calculate_display itd (state T) t0 t1 else idle_display]
     \<and> monitor_of (fst (start itd (fst (stop s i)) i t0 t1)) i =
         monitor T @ idle_display #
           [if hasValue (calculate_display itd (state T) t0 t1)
            then calculate_display itd (state T) t0 t1 else idle_display]
     \<and> ended_of (fst (reset itd s i t0 t1)) i =
         ended T @ False #
           (if hasValue (calculate_display itd (state T) t0 t1) then [] else [True])
     \<and> ended_of (fst (start itd (fst (stop s i)) i t0 t1)) i =
         ended T @ True # False #
           (if hasValue (calculate_display itd (state T) t0 t1) then [] else [True])
     \<and> window_intervals (fst (reset itd s i t0 t1)) =
         window_intervals (fst (start itd (fst (stop s i)) i t0 t1))
     \<and> interval_of (fst (reset itd s i t0 t1)) i =
         interval_of (fst (start itd (fst (stop s i)) i t0 t1)) i
     \<and> next_handle (fst (reset itd s i t0 t1)) =
         next_handle (fst (start itd (fst (stop s i)) i t0 t1))"
proof -
  let ?s' = "fst (stop s i)"
  let ?T' = "T\<lparr>interval := None, monitor := monitor T @ [idle_display],
                ended := ended T @ [True]\<rparr>"
  have t': "timers ?s' i = Some ?T'"
    by (simp add: stop_registered [OF assms])
  have w': "window_intervals ?s' = cleared s (interval T)"
    by (simp add: stop_registered [OF assms])
  have n': "next_handle ?s' = next_handle s"
    by (simp add: stop_registered [OF assms])
  have c': "cleared ?s' None = cleared s (interval T)"
    by (simp add: cleared_def w')
  show ?thesis
    by (simp add: reset_def start_registered [OF assms] start_registered [OF t']
        monitor_of_def ended_of_def interval_of_def n' c')
qed

theorem reset_omits_stop_witness:
  "ended_of (fst (reset intervalToDuration (ngOnInit intervalToDuration init 0 0)
       TimerId_default 1000 1000)) TimerId_default = [False, False]
   \<and> ended_of (fst (start intervalToDuration
       (fst (stop (ngOnInit intervalToDuration init 0 0) TimerId_default))
       TimerId_default 1000 1000)) TimerId_default = [False, True, False]
   \<and> window_intervals (fst (reset intervalToDuration (ngOnInit intervalToDuration init 0 0)
       TimerId_default 1000 1000)) =
     window_intervals (fst (start intervalToDuration
       (fst (stop (ngOnInit intervalToDuration init 0 0) TimerId_default))
       TimerId_default 1000 1000))"
proof -
  let ?R = "ngOnInit intervalToDuration init 0 0"
  let ?T = "\<lparr>state = \<lparr>idT = TimerId_default, valueT = 3360\<rparr>,
         monitor = [\<lparr>idT = TimerId_default, valueT = 3360,
                     display = Some \<lparr>years = None, months = None, weeks = None, days = None,
                                     hours = None, minutes = Some 56, seconds = None\<rparr>,
                     percent = Some 100\<rparr>],
         ended = [False], interval = Some (Handle 0)\<rparr>"
  have h: "timers ?R TimerId_default = Some ?T"
    by (simp add: running_state)
  have v: "hasValue (calculate_display intervalToDuration (state ?T) 1000 1000)"
    by (simp add: hasValue_def truthy_def calculate_display_def getDuration_def
        add_seconds_def intervalToDuration_def present_def Let_def)
  note w = reset_omits_stop [where itd = intervalToDuration and ?t0.0 = 1000 and ?t1.0 = 1000,
      OF h, THEN conjunct2, unfolded if_P [OF v]]
  have 1: "ended_of (fst (reset intervalToDuration ?R TimerId_default 1000 1000))
      TimerId_default = [False, False]"
    using w [THEN conjunct2, THEN conjunct2, THEN conjunct1] by simp
  have 2: "ended_of (fst (start intervalToDuration (fst (stop ?R TimerId_default))
      TimerId_default 1000 1000)) TimerId_default = [False, True, False]"
    using w [THEN conjunct2, THEN conjunct2, THEN conjunct2, THEN conjunct1] by simp
  have 3: "window_intervals (fst (reset intervalToDuration ?R TimerId_default 1000 1000)) =
     window_intervals (fst (start intervalToDuration (fst (stop ?R TimerId_default))
       TimerId_default 1000 1000))"
    using w [THEN conjunct2, THEN conjunct2, THEN conjunct2, THEN conjunct2, THEN conjunct1]
    by simp
  from 1 2 3 show ?thesis by blast
qed

text \<open>
  The claim C2 as it is written fails on the running default timer: one second after
  the start, \<open>reset\<close> pushes \<open>false\<close> on the ended stream and one display on the display
  stream, where \<open>stop\<close> followed by \<open>start\<close> pushes \<open>true\<close> then \<open>false\<close>, and the idle
  display then the same display.
\<close>

theorem reset_is_not_stop_then_start:
  "ended_of (fst (reset intervalToDuration (ngOnInit intervalToDuration init 0 0)
       TimerId_default 1000 1000)) TimerId_default = [False, False]
   \<and> ended_of (fst (start intervalToDuration
       (fst (stop (ngOnInit intervalToDuration init 0 0) TimerId_default))
       TimerId_default 1000 1000)) TimerId_default = [False, True, False]
   \<and> map display (monitor_of (fst (reset intervalToDuration
       (ngOnInit intervalToDuration init 0 0) TimerId_default 1000 1000)) TimerId_default) =
     [Some \<lparr>years = None, months = None, weeks = None, days = None,
            hours = None, minutes = Some 56, seconds = None\<rparr>,
      Some \<lparr>years = None, months = None, weeks = None, days = None,
            hours = None, minutes = Some 56, seconds = None\<rparr>]
   \<and> map display (monitor_of (fst (start intervalToDuration
       (fst (stop (ngOnInit intervalToDuration init 0 0) TimerId_default))
       TimerId_default 1000 1000)) TimerId_default) =
     [Some \<lparr>years = None, months = None, weeks = None, days = None,
            hours = None, minutes = Some 56, seconds = None\<rparr>,
      None,
      Some \<lparr>years = None, months = None, weeks = None, days = None,
            hours = None, minutes = Some 56, seconds = None\<rparr>]
   \<and> fst (reset intervalToDuration (ngOnInit intervalToDuration init 0 0)
       TimerId_default 1000 1000) \<noteq>
     fst (start intervalToDuration
       (fst (stop (ngOnInit intervalToDuration init 0 0) TimerId_default))
       TimerId_default 1000 1000)"
proof -
  let ?A = "fst (reset intervalToDuration (ngOnInit intervalToDuration init 0 0)
       TimerId_default 1000 1000)"
  let ?B = "fst (start intervalToDuration
       (fst (stop (ngOnInit intervalToDuration init 0 0) TimerId_default))
       TimerId_default 1000 1000)"
  have 1: "ended_of ?A TimerId_default = [False, False]"
    by (simp add: running_state) (simp add: model_defs)
  have 2: "ended_of ?B TimerId_default = [False, True, False]"
    by (simp add: running_state) (simp add: model_defs)
  have 3: "map display (monitor_of ?A TimerId_default) =
     [Some \<lparr>years = None, months = None, weeks = None, days = None,
            hours = None, minutes = Some 56, seconds = None\<rparr>,
      Some \<lparr>years = None, months = None, weeks = None, days = None,
            hours = None, minutes = Some 56, seconds = None\<rparr>]"
    by (simp add: running_state) (simp add: model_defs)
  have 4: "map display (monitor_of ?B TimerId_default) =
     [Some \<lparr>years = None, months = None, weeks = None, days = None,
            hours = None, minutes = Some 56, seconds = None\<rparr>,
      None,
      Some \<lparr>years = None, months = None, weeks = None, days = None,
            hours = None, minutes = Some 56, seconds = None\<rparr>]"
    by (simp add: running_state) (simp add: model_defs)
  have 5: "?A \<noteq> ?B"
  proof
    assume "?A = ?B"
    then have "ended_of ?A TimerId_default = ended_of ?B TimerId_default" by simp
    with 1 2 show False by simp
  qed
  from 1 2 3 4 5 show ?thesis by blast
qed

section \<open>One poll per id\<close>

text \<open>
  \<open>start\<close>, hence \<open>reset\<close>, \<open>stop\<close> and every tick keep the invariant \<open>single_poll\<close>: each
  of them clears the handle that the record holds before it arms another.
\<close>

lemma single_pollD:
  assumes "single_poll s" and "(h, cb) \<in> set (window_intervals s)"
  shows "interval_of s (cb_id cb) = Some h" and "fresh s h"
  using assms by (auto simp: single_poll_def list_all_iff)

lemma filter_same_key:
  "distinct (map fst xs) \<Longrightarrow> \<forall>x \<in> set xs. P x \<longrightarrow> fst x = h \<Longrightarrow> length (filter P xs) \<le> 1"
proof (induction xs)
  case Nil
  then show ?case by simp
next
  case (Cons x xs)
  show ?case
  proof (cases "P x")
    case True
    then have hx: "fst x = h" using Cons.prems(2) by simp
    have "\<not> P y" if "y \<in> set xs" for y
    proof
      assume "P y"
      with that Cons.prems(2) have "fst y = h" by simp
      with hx have "fst x \<in> fst ` set xs" using that by (metis imageI)
      with Cons.prems(1) show False by simp
    qed
    then have "filter P xs = []" by (simp add: filter_empty_conv)
    with True show ?thesis by simp
  next
    case False
    with Cons show ?thesis by simp
  qed
qed

lemma single_poll_at_most_one:
  assumes "single_poll s"
  shows "length (polls s i) \<le> 1"
proof (cases "interval_of s i")
  case None
  have "filter (\<lambda>hc. cb_id (snd hc) = i) (window_intervals s) = []"
    using assms None by (auto simp: single_poll_def list_all_iff filter_empty_conv)
  then show ?thesis by (simp add: polls_def)
next
  case (Some h)
  have "\<forall>x \<in> set (window_intervals s). cb_id (snd x) = i \<longrightarrow> fst x = h"
    using assms Some by (auto simp: single_poll_def list_all_iff)
  with assms show ?thesis
    unfolding polls_def single_poll_def by (blast intro: filter_same_key)
qed

lemma single_poll_init: "single_poll init"
  by (simp add: single_poll_def init_def)

lemma single_poll_clear_step:
  assumes inv: "single_poll s"
    and w: "window_intervals s' = cleared s (interval_of s i)"
    and n: "next_handle s' = next_handle s"
    and oth: "\<And>j. j \<noteq> i \<Longrightarrow> interval_of s' j = interval_of s j"
  shows "single_poll s'"
proof -
  have sub: "set (window_intervals s') \<subseteq> set (window_intervals s)"
    by (auto simp: w cleared_def split: option.splits)
  have d: "distinct (map fst (window_intervals s'))"
    using inv by (auto simp: w cleared_def single_poll_def distinct_map_filter split: option.splits)
  have e: "interval_of s' (cb_id cb) = Some h \<and> fresh s' h"
    if m: "(h, cb) \<in> set (window_intervals s')" for h cb
  proof -
    from m sub have m0: "(h, cb) \<in> set (window_intervals s)" by blast
    note f = single_pollD [OF inv m0]
    have "cb_id cb \<noteq> i"
    proof
      assume "cb_id cb = i"
      with f(1) have "interval_of s i = Some h" by simp
      with m show False by (simp add: w cleared_def)
    qed
    with f oth n show ?thesis by (simp add: fresh_def)
  qed
  from d e show ?thesis
    by (auto simp: single_poll_def list_all_iff)
qed

lemma single_poll_arm_step:
  assumes inv: "single_poll s"
    and none: "interval_of s i = None"
    and w: "window_intervals s' = window_intervals s @ [(Handle (next_handle s), cb)]"
    and c: "cb_id cb = i"
    and n: "next_handle s' = Suc (next_handle s)"
    and ii: "interval_of s' i = Some (Handle (next_handle s))"
    and oth: "\<And>j. j \<noteq> i \<Longrightarrow> interval_of s' j = interval_of s j"
  shows "single_poll s'"
proof -
  have nf: "Handle (next_handle s) \<notin> fst ` set (window_intervals s)"
  proof
    assume "Handle (next_handle s) \<in> fst ` set (window_intervals s)"
    then obtain cb' where "(Handle (next_handle s), cb') \<in> set (window_intervals s)"
      by auto
    from single_pollD(2) [OF inv this] show False by (simp add: fresh_def)
  qed
  have d: "distinct (map fst (window_intervals s'))"
    using inv nf by (simp add: w single_poll_def)
  have e: "interval_of s' (cb_id cb') = Some h \<and> fresh s' h"
    if m: "(h, cb') \<in> set (window_intervals s')" for h cb'
  proof (cases "(h, cb') \<in> set (window_intervals s)")
    case True
    note f = single_pollD [OF inv True]
    from f(1) none have "cb_id cb' \<noteq> i" by auto
    with f oth n show ?thesis by (simp add: fresh_def)
  next
    case False
    with m have "h = Handle (next_handle s)" "cb' = cb" by (auto simp: w)
    with c ii n show ?thesis by (simp add: fresh_def)
  qed
  from d e show ?thesis
    by (auto simp: single_poll_def list_all_iff)
qed

lemma single_poll_push_step:
  assumes inv: "single_poll s"
    and w: "window_intervals s' = window_intervals s"
    and n: "next_handle s' = next_handle s"
    and oth: "\<And>j. interval_of s' j = interval_of s j"
  shows "single_poll s'"
  using inv by (simp add: single_poll_def w n oth fresh_def)

lemma single_poll_stop:
  assumes "single_poll s"
  shows "single_poll (fst (stop s i))"
proof (cases "timers s i")
  case None
  then show ?thesis using assms by (simp add: stop_def getTimer_def)
next
  case (Some T)
  show ?thesis
  proof (rule single_poll_clear_step [OF assms, of _ i])
    show "window_intervals (fst (stop s i)) = cleared s (interval_of s i)"
      by (simp add: stop_registered [OF Some] interval_of_def Some)
    show "next_handle (fst (stop s i)) = next_handle s"
      by (simp add: stop_registered [OF Some])
    show "interval_of (fst (stop s i)) j = interval_of s j" if "j \<noteq> i" for j
      using that by (simp add: stop_registered [OF Some] interval_of_def)
  qed
qed

lemma single_poll_update:
  assumes "single_poll s"
  shows "single_poll (update s i d)"
proof (cases "timers s i")
  case None
  then show ?thesis using assms by (simp add: update_def getTimer_def)
next
  case (Some T)
  show ?thesis
  proof (cases "hasValue d")
    case True
    show ?thesis
      by (rule single_poll_push_step [OF assms])
        (simp_all add: update_registered [OF Some] True interval_of_def Some)
  next
    case False
    show ?thesis
    proof (rule single_poll_clear_step [OF assms, of _ i])
      show "window_intervals (update s i d) = cleared s (interval_of s i)"
        by (simp add: update_registered [OF Some] False interval_of_def Some)
      show "next_handle (update s i d) = next_handle s"
        by (simp add: update_registered [OF Some] False)
      show "interval_of (update s i d) j = interval_of s j" if "j \<noteq> i" for j
        using that by (simp add: update_registered [OF Some] False interval_of_def)
    qed
  qed
qed

lemma single_poll_tick:
  assumes "single_poll s"
  shows "single_poll (tick itd s h now)"
  using assms by (simp add: tick_def calculate_def single_poll_update split: option.splits)

lemma single_poll_start:
  assumes "single_poll s"
  shows "single_poll (fst (start itd s i t0 t1))"
proof (cases "timers s i")
  case None
  then show ?thesis using assms by (simp add: start_def getTimer_def)
next
  case (Some T)
  let ?m = "clearInterval s i"
  have m: "single_poll ?m"
  proof (rule single_poll_clear_step [OF assms, of _ i])
    show "window_intervals ?m = cleared s (interval_of s i)"
      by (simp add: clearInterval_registered [OF Some] interval_of_def Some)
    show "next_handle ?m = next_handle s"
      by (simp add: clearInterval_registered [OF Some])
    show "interval_of ?m j = interval_of s j" if "j \<noteq> i" for j
      using that by (simp add: clearInterval_registered [OF Some] interval_of_def)
  qed
  show ?thesis
  proof (rule single_poll_arm_step [OF m, of i])
    show "interval_of ?m i = None"
      by (simp add: clearInterval_registered [OF Some] interval_of_def)
    show "window_intervals (fst (start itd s i t0 t1)) =
        window_intervals ?m @
          [(Handle (next_handle ?m), \<lparr>cb_id = i, cb_state = state T, cb_start = t0\<rparr>)]"
      by (simp add: start_registered [OF Some] clearInterval_registered [OF Some])
    show "cb_id \<lparr>cb_id = i, cb_state = state T, cb_start = t0\<rparr> = i"
      by simp
    show "next_handle (fst (start itd s i t0 t1)) = Suc (next_handle ?m)"
      by (simp add: start_registered [OF Some] clearInterval_registered [OF Some])
    show "interval_of (fst (start itd s i t0 t1)) i = Some (Handle (next_handle ?m))"
      by (simp add: start_registered [OF Some] clearInterval_registered [OF Some]
          interval_of_def)
    show "interval_of (fst (start itd s i t0 t1)) j = interval_of ?m j" if "j \<noteq> i" for j
      using that
      by (simp add: start_registered [OF Some] clearInterval_registered [OF Some]
          interval_of_def)
  qed
qed

lemma single_poll_reset:
  assumes "single_poll s"
  shows "single_poll (fst (reset itd s i t0 t1))"
  using assms by (simp add: reset_def single_poll_start)

section \<open>Registering again while the timer runs\<close>

text \<open>
  C4. The claim is that registering a configuration for an id whose countdown runs
  cancels the running poll. In the code \<open>setTimer\<close> replaces the record and leaves the
  window alone. After \<open>ngOnInit\<close> and a second \<open>setTimer\<close> for the id \<open>default\<close> with 10
  seconds: the invariant \<open>single_poll\<close> held and is lost, the first poll is still
  armed, the new record holds no handle, the
  tick of the old poll at 300 ms pushes a display of the old configuration (3360
  seconds) on the stream of the new record, and a \<open>start\<close> of the new record leaves two
  polls armed for the id.
\<close>

theorem setTimer_keeps_old_poll:
  "single_poll (ngOnInit intervalToDuration init 0 0)
   \<and> \<not> single_poll
      (setTimer (ngOnInit intervalToDuration init 0 0) \<lparr>idT = TimerId_default, valueT = 10\<rparr>)
   \<and> window_intervals
      (setTimer (ngOnInit intervalToDuration init 0 0) \<lparr>idT = TimerId_default, valueT = 10\<rparr>) =
     [(Handle 0, \<lparr>cb_id = TimerId_default, cb_state = \<lparr>idT = TimerId_default, valueT = 3360\<rparr>,
           cb_start = 0\<rparr>)]
   \<and> interval_of
      (setTimer (ngOnInit intervalToDuration init 0 0) \<lparr>idT = TimerId_default, valueT = 10\<rparr>)
      TimerId_default = None
   \<and> monitor_of (tick intervalToDuration
      (setTimer (ngOnInit intervalToDuration init 0 0) \<lparr>idT = TimerId_default, valueT = 10\<rparr>)
      (Handle 0) 300) TimerId_default =
     [\<lparr>idT = TimerId_default, valueT = 3360,
       display = Some \<lparr>years = None, months = None, weeks = None, days = None,
                       hours = None, minutes = Some 55, seconds = Some 59\<rparr>,
       percent = Some (11199 / 112)\<rparr>]
   \<and> map fst (polls (fst (start intervalToDuration
      (setTimer (ngOnInit intervalToDuration init 0 0) \<lparr>idT = TimerId_default, valueT = 10\<rparr>)
      TimerId_default 300 300)) TimerId_default) = [Handle 0, Handle 1]"
proof -
  let ?S = "setTimer (ngOnInit intervalToDuration init 0 0)
      \<lparr>idT = TimerId_default, valueT = 10\<rparr>"
  have 1: "window_intervals ?S =
     [(Handle 0, \<lparr>cb_id = TimerId_default, cb_state = \<lparr>idT = TimerId_default, valueT = 3360\<rparr>,
           cb_start = 0\<rparr>)]"
    by (simp add: running_state setTimer_def)
  have 2: "interval_of ?S TimerId_default = None"
    by (simp add: running_state setTimer_def interval_of_def)
  have 3: "monitor_of (tick intervalToDuration ?S (Handle 0) 300) TimerId_default =
     [\<lparr>idT = TimerId_default, valueT = 3360,
       display = Some \<lparr>years = None, months = None, weeks = None, days = None,
                       hours = None, minutes = Some 55, seconds = Some 59\<rparr>,
       percent = Some (11199 / 112)\<rparr>]"
    by (simp add: running_state) (simp add: model_defs)
  have 4: "map fst (polls (fst (start intervalToDuration ?S TimerId_default 300 300))
      TimerId_default) = [Handle 0, Handle 1]"
    by (simp add: running_state) (simp add: model_defs)
  have 5: "single_poll (ngOnInit intervalToDuration init 0 0)"
    by (simp add: running_state single_poll_def interval_of_def fresh_def)
  have 6: "\<not> single_poll ?S"
    by (simp add: running_state single_poll_def setTimer_def interval_of_def)
  from 1 2 3 4 5 6 show ?thesis by blast
qed

end
